theory Spec2Isabelle
  imports Main
begin

section \<open>Data model (types.ts)\<close>

text \<open>
  JavaScript strings are sequences of UTF-16 code units. They are modelled as \<open>string\<close>
  (a list of 8-bit characters), which covers the strings all of whose code units are
  below 256; \<open>length\<close>, \<open>take\<close> and \<open>drop\<close> then count what \<open>.length\<close>, \<open>.slice\<close>
  and \<open>.substring\<close> count. \<open>Date.now()\<close> is an integer number of milliseconds; every
  reading of the clock is an input of the handler that reads it.

  Two records cannot share a field name, so the fields \<open>id\<close>, \<open>name\<close>, \<open>type\<close> ... of
  the interfaces carry the interface as a prefix. An optional field (\<open>thinking?\<close>,
  \<open>attachments?\<close>) is an \<open>option\<close>, \<open>None\<close> being \<open>undefined\<close>.
\<close>

record Attachment =
  att_name :: string
  att_type :: string
  att_data :: string

datatype Role = User | Assistant | System

record Message =
  msg_id :: string
  msg_role :: Role
  msg_content :: string
  msg_attachments :: "Attachment list option"
  msg_thinking :: "string option"
  msg_timestamp :: int

record ChatSession =
  chat_id :: string
  chat_title :: string
  chat_messages :: "Message list"
  createdAt :: int
  lastModified :: int

text \<open>A thrown JavaScript exception, as a value.\<close>

datatype js_error = SyntaxError | TypeError | OtherError string

section \<open>Strings: \<open>toString\<close>, \<open>trim\<close>\<close>

text \<open>
  \<open>Number.prototype.toString\<close> on an integer: its decimal digits, with a minus sign
  when it is negative.
\<close>

fun digits :: "nat \<Rightarrow> string" where
  "digits n = (if n < 10 then [''0123456789'' ! n]
               else digits (n div 10) @ [''0123456789'' ! (n mod 10)])"

declare digits.simps [simp del]

definition toString :: "int \<Rightarrow> string" where
  "toString i = (if i < 0 then CHR ''-'' # digits (nat (- i)) else digits (nat i))"

text \<open>
  The characters that \<open>\s\<close> matches and \<open>trim\<close> strips (white space and line
  terminators) among the code units below 256: TAB, LF, VT, FF, CR, SPACE and NBSP.
\<close>

definition isWhiteSpace :: "char \<Rightarrow> bool" where
  "isWhiteSpace c =
     (c \<in> set [CHR 0x09, CHR 0x0A, CHR 0x0B, CHR 0x0C, CHR 0x0D, CHR 0x20, CHR 0xA0])"

definition trimStart :: "string \<Rightarrow> string" where
  "trimStart s = dropWhile isWhiteSpace s"

definition trimEnd :: "string \<Rightarrow> string" where
  "trimEnd s = rev (dropWhile isWhiteSpace (rev s))"

definition trim :: "string \<Rightarrow> string" where
  "trim s = trimEnd (trimStart s)"

section \<open>Model orchestrator (services/geminiService.ts)\<close>

text \<open>
  The reply of \<open>ai.models.generateContent\<close>, with the optional chain
  \<open>response.candidates?.[0]?.content?.parts\<close> kept as it is: each level may be
  missing. \<open>response.text\<close> is the convenience field. A part carries an optional
  \<open>text\<close> and an optional \<open>thought\<close>, which the code reads as the reasoning text.
\<close>

record Part =
  part_text :: "string option"
  part_thought :: "string option"

record Content =
  content_parts :: "Part list option"

record Candidate =
  cand_content :: "Content option"

record GenerateContentResponse =
  resp_candidates :: "Candidate list option"
  resp_text :: "string option"

text \<open>The value \<open>generateMathResponse\<close> resolves to: \<open>{ text, thinking? }\<close>.\<close>

record MathResponse =
  mr_text :: string
  mr_thinking :: "string option"

text \<open>Truthiness of an optional string: \<open>undefined\<close> and \<open>''\<close> are falsy.\<close>

definition truthy :: "string option \<Rightarrow> bool" where
  "truthy v = (case v of None \<Rightarrow> False | Some t \<Rightarrow> t \<noteq> [])"

text \<open>\<open>a || b\<close> on strings.\<close>

definition or_else :: "string \<Rightarrow> string \<Rightarrow> string" where
  "or_else a b = (if a \<noteq> [] then a else b)"

text \<open>\<open>response.candidates?.[0]?.content?.parts || []\<close>\<close>

definition response_parts :: "GenerateContentResponse \<Rightarrow> Part list" where
  "response_parts response =
     (case resp_candidates response of
        None \<Rightarrow> []
      | Some [] \<Rightarrow> []
      | Some (c # _) \<Rightarrow>
          (case cand_content c of
             None \<Rightarrow> []
           | Some ct \<Rightarrow> (case content_parts ct of None \<Rightarrow> [] | Some ps \<Rightarrow> ps)))"

definition apology :: string where
  "apology = ''I couldn't generate a solution. Please try again.''"

text \<open>
  Lines 55 to 62 of the service: \<open>textPart\<close>, \<open>thinkingPart\<close> and the returned object.
  \<open>parts.find(p => p.text)?.text || ''\<close> is the text of the first part whose text is
  truthy, and \<open>''\<close> when there is none.
\<close>

definition textPart :: "Part list \<Rightarrow> string" where
  "textPart ps =
     (case find (\<lambda>p. truthy (part_text p)) ps of
        None \<Rightarrow> []
      | Some p \<Rightarrow> (case part_text p of None \<Rightarrow> [] | Some t \<Rightarrow> t))"

definition thinkingPart :: "Part list \<Rightarrow> string" where
  "thinkingPart ps =
     (case find (\<lambda>p. truthy (part_thought p)) ps of
        None \<Rightarrow> []
      | Some p \<Rightarrow> (case part_thought p of None \<Rightarrow> [] | Some t \<Rightarrow> t))"

definition decompose :: "GenerateContentResponse \<Rightarrow> MathResponse" where
  "decompose response =
     (let ps = response_parts response in
      \<lparr> mr_text = or_else (textPart ps)
                 (or_else (case resp_text response of None \<Rightarrow> [] | Some t \<Rightarrow> t) apology),
        mr_thinking = Some (thinkingPart ps) \<rparr>)"

text \<open>
  \<open>generateMathResponse\<close> awaits the remote call inside \<open>try\<close>; the \<open>catch\<close> logs and
  rethrows. The outcome of the remote call (a rejection or a reply) is the argument.
\<close>

definition generateMathResponse ::
  "js_error + GenerateContentResponse \<Rightarrow> js_error + MathResponse" where
  "generateMathResponse remote =
     (case remote of Inl e \<Rightarrow> Inl e | Inr response \<Rightarrow> Inr (decompose response))"

section \<open>Session controller (App.tsx)\<close>

text \<open>
  The state of the \<open>App\<close> component: the \<open>useState\<close> cells the controller reads and
  writes (\<open>theme\<close>, \<open>isSidebarOpen\<close> and \<open>isRecording\<close> are presentation only and left
  out). \<open>inflight\<close> is not a cell of the source: it lists the calls of \<open>sendMessage\<close>
  that are suspended at \<open>await geminiService.generateMathResponse(...)\<close>, each with
  the locals its continuation uses and the arguments it passed to the service.
\<close>

record Pending =
  p_activeChatId :: string
  p_chatHistory :: "Message list"
  p_originalInput :: string
  p_originalAttachments :: "Attachment list"

record AppState =
  chats :: "ChatSession list"
  currentChatId :: "string option"
  inputText :: string
  attachments :: "Attachment list"
  isTyping :: bool
  inflight :: "Pending list"

subsection \<open>Initial state (lines 8 to 19)\<close>

text \<open>
  \<open>localStorage.getItem('sigma_math_chats')\<close> is \<open>null\<close> (\<open>None\<close>) or a string.
  \<open>JSON.parse\<close> is the platform's parser, not code of this repository: what it does on
  the stored string (throw, or return the array that the code takes to be a
  \<open>ChatSession[]\<close>) is given together with the string. A throw inside a \<open>useState\<close>
  initializer is not caught anywhere: the component fails to mount.
\<close>

record StoredItem =
  item_raw :: string
  item_parsed :: "js_error + ChatSession list"

definition init_chats :: "StoredItem option \<Rightarrow> js_error + ChatSession list" where
  "init_chats saved =
     (case saved of
        None \<Rightarrow> Inr []
      | Some it \<Rightarrow> if item_raw it \<noteq> [] then item_parsed it else Inr [])"

definition init_currentChatId :: "StoredItem option \<Rightarrow> js_error + string option" where
  "init_currentChatId saved =
     (case saved of
        None \<Rightarrow> Inr None
      | Some it \<Rightarrow>
          if item_raw it \<noteq> [] then
            (case item_parsed it of
               Inl e \<Rightarrow> Inl e
             | Inr parsed \<Rightarrow>
                 Inr (case parsed of [] \<Rightarrow> None | c # _ \<Rightarrow> Some (chat_id c)))
          else Inr None)"

definition App_init :: "StoredItem option \<Rightarrow> js_error + AppState" where
  "App_init saved =
     (case init_chats saved of
        Inl e \<Rightarrow> Inl e
      | Inr cs \<Rightarrow>
          (case init_currentChatId saved of
             Inl e \<Rightarrow> Inl e
           | Inr cur \<Rightarrow>
               Inr \<lparr> chats = cs, currentChatId = cur, inputText = [], attachments = [],
                     isTyping = False, inflight = [] \<rparr>))"

definition empty_store :: AppState where
  "empty_store = \<lparr> chats = [], currentChatId = None, inputText = [], attachments = [],
                    isTyping = False, inflight = [] \<rparr>"

subsection \<open>\<open>startNewChat\<close> and \<open>deleteChat\<close> (lines 45 to 64)\<close>

text \<open>The three readings of \<open>Date.now()\<close> that build a session, in program order.\<close>

record ChatTimes =
  tc_id :: int
  tc_createdAt :: int
  tc_lastModified :: int

definition startNewChat :: "ChatTimes \<Rightarrow> AppState \<Rightarrow> AppState" where
  "startNewChat t s =
     (let newChat = \<lparr> chat_id = toString (tc_id t), chat_title = ''New Calculation'',
                       chat_messages = [], createdAt = tc_createdAt t,
                       lastModified = tc_lastModified t \<rparr>
      in s\<lparr> chats := newChat # chats s, currentChatId := Some (chat_id newChat) \<rparr>)"

text \<open>
  \<open>deleteChat\<close> filters the state through the updater and, when the deleted id is the
  current one, reads \<open>remaining[0]\<close> of the \<open>chats\<close> of the render it was created in;
  handlers run one at a time on the state of the latest render, so both are the
  same list.
\<close>

definition deleteChat :: "string \<Rightarrow> AppState \<Rightarrow> AppState" where
  "deleteChat i s =
     (let remaining = filter (\<lambda>c. chat_id c \<noteq> i) (chats s)
      in s\<lparr> chats := filter (\<lambda>c. chat_id c \<noteq> i) (chats s),
            currentChatId :=
              (if currentChatId s = Some i
               then (case remaining of [] \<Rightarrow> None | c # _ \<Rightarrow> Some (chat_id c))
               else currentChatId s) \<rparr>)"

subsection \<open>\<open>handleFileChange\<close> (lines 66 to 90)\<close>

text \<open>
  A file of the picker: its name, MIME type and size in bytes, and what
  \<open>FileReader.readAsDataURL\<close> delivers to \<open>onload\<close>. The promise of the source is
  resolved by \<open>onload\<close> only: for a file whose read never fires \<open>onload\<close>
  (\<open>file_dataURL = None\<close>) the handler stays suspended and never reaches
  \<open>setAttachments\<close>.
\<close>

record File =
  file_name :: string
  file_type :: string
  file_size :: nat
  file_dataURL :: "string option"

definition maxFileSize :: nat where
  "maxFileSize = 10 * 1024 * 1024"

definition tooLarge :: string where
  "tooLarge = ''File too large. Max 10MB per file.''"

text \<open>The object pushed for a file that was read: \<open>{ name, type, data: result }\<close>.\<close>

definition attachmentOf :: "File \<Rightarrow> string \<Rightarrow> Attachment" where
  "attachmentOf file result =
     \<lparr> att_name = file_name file, att_type = file_type file, att_data = result \<rparr>"

text \<open>
  The \<open>for\<close> loop, with \<open>newAttachments\<close> and the alerts shown so far as
  accumulators; \<open>None\<close> when the loop never finishes.
\<close>

fun readFiles ::
  "File list \<Rightarrow> Attachment list \<Rightarrow> string list \<Rightarrow> (Attachment list \<times> string list) option" where
  "readFiles [] newAttachments alerts = Some (newAttachments, alerts)"
| "readFiles (file # files) newAttachments alerts =
     (if file_size file > maxFileSize then readFiles files newAttachments (alerts @ [tooLarge])
      else (case file_dataURL file of
              None \<Rightarrow> None
            | Some result \<Rightarrow>
                readFiles files (newAttachments @ [attachmentOf file result]) alerts))"

text \<open>The new state and the alerts shown; \<open>e.target.files\<close> may be \<open>null\<close>.\<close>

definition handleFileChange ::
  "File list option \<Rightarrow> AppState \<Rightarrow> (AppState \<times> string list) option" where
  "handleFileChange files s =
     (case files of
        None \<Rightarrow> Some (s, [])
      | Some fs \<Rightarrow>
          (case readFiles fs [] [] of
             None \<Rightarrow> None
           | Some (newAttachments, alerts) \<Rightarrow>
               Some (s\<lparr> attachments := attachments s @ newAttachments \<rparr>, alerts)))"

subsection \<open>\<open>sendMessage\<close> (lines 92 to 166)\<close>

text \<open>
  The readings of \<open>Date.now()\<close> for a message: its id, its timestamp, and the
  \<open>lastModified\<close> written by the updater that appends it.
\<close>

record MessageTimes =
  tm_id :: int
  tm_timestamp :: int
  tm_lastModified :: int

text \<open>\<open>inputText.slice(0, 35) || 'Multimodal Query'\<close>\<close>

definition newChatTitle :: "string \<Rightarrow> string" where
  "newChatTitle input = or_else (take 35 input) ''Multimodal Query''"

text \<open>\<open>!activeChatId\<close>: \<open>null\<close> and the empty string are falsy.\<close>

definition noActiveChat :: "string option \<Rightarrow> bool" where
  "noActiveChat cur = (case cur of None \<Rightarrow> True | Some i \<Rightarrow> i = [])"

definition appendMessage :: "string \<Rightarrow> Message \<Rightarrow> int \<Rightarrow> ChatSession list \<Rightarrow> ChatSession list" where
  "appendMessage activeChatId m now prev =
     map (\<lambda>chat. if chat_id chat = activeChatId
                  then chat\<lparr> chat_messages := chat_messages chat @ [m], lastModified := now \<rparr>
                  else chat) prev"

text \<open>
  The synchronous part of \<open>sendMessage\<close>, up to the \<open>await\<close>: the two guards, the
  session made when none is active, the user message, and the call of the service,
  which is recorded in \<open>inflight\<close>. \<open>chatHistory\<close> is read from the \<open>chats\<close> of the
  render, before the updaters of this call are applied.
\<close>

definition sendMessage :: "ChatTimes \<Rightarrow> MessageTimes \<Rightarrow> AppState \<Rightarrow> AppState" where
  "sendMessage tc tm s =
     (if trim (inputText s) = [] \<and> attachments s = [] then s
      else if isTyping s then s
      else
        let newChat = \<lparr> chat_id = toString (tc_id tc), chat_title = newChatTitle (inputText s),
                         chat_messages = [], createdAt = tc_createdAt tc,
                         lastModified = tc_lastModified tc \<rparr>;
            activeChatId = (case currentChatId s of
                              None \<Rightarrow> chat_id newChat
                            | Some i \<Rightarrow> if i = [] then chat_id newChat else i);
            userMessage = \<lparr> msg_id = toString (tm_id tm), msg_role = User,
                             msg_content = inputText s,
                             msg_attachments = Some (attachments s), msg_thinking = None,
                             msg_timestamp = tm_timestamp tm \<rparr>;
            chatHistory = (case find (\<lambda>c. chat_id c = activeChatId) (chats s) of
                             None \<Rightarrow> []
                           | Some c \<Rightarrow> chat_messages c)
        in s\<lparr> chats := appendMessage activeChatId userMessage (tm_lastModified tm)
                          (if noActiveChat (currentChatId s) then newChat # chats s else chats s),
              currentChatId := (if noActiveChat (currentChatId s) then Some (chat_id newChat)
                                else currentChatId s),
              inputText := [],
              attachments := [],
              isTyping := True,
              inflight := inflight s @
                [\<lparr> p_activeChatId = activeChatId, p_chatHistory = chatHistory,
                    p_originalInput = inputText s,
                    p_originalAttachments = attachments s \<rparr>] \<rparr>)"

definition errorText :: string where
  "errorText = ''I encountered an error processing your mathematical query. Please ensure your expression is valid and try again.''"

text \<open>The updater of the \<open>try\<close> branch (lines 142 to 151).\<close>

definition appendAssistant ::
  "string \<Rightarrow> string \<Rightarrow> Message \<Rightarrow> int \<Rightarrow> ChatSession list \<Rightarrow> ChatSession list" where
  "appendAssistant activeChatId originalInput m now prev =
     map (\<lambda>chat. if chat_id chat = activeChatId
                  then chat\<lparr> chat_messages := chat_messages chat @ [m],
                             chat_title := (if length (chat_messages chat) = 0
                                            then take 35 originalInput else chat_title chat),
                             lastModified := now \<rparr>
                  else chat) prev"

text \<open>The updater of the \<open>catch\<close> branch (lines 160 to 162).\<close>

definition appendError :: "string \<Rightarrow> Message \<Rightarrow> ChatSession list \<Rightarrow> ChatSession list" where
  "appendError activeChatId m prev =
     map (\<lambda>chat. if chat_id chat = activeChatId
                  then chat\<lparr> chat_messages := chat_messages chat @ [m] \<rparr>
                  else chat) prev"

text \<open>
  The continuation of a suspended \<open>sendMessage\<close>, run when the remote call of the
  pending call \<open>p\<close> settles with \<open>remote\<close>: the \<open>try\<close> branch when the service
  resolves, the \<open>catch\<close> branch when it throws, and \<open>finally\<close>.
\<close>

definition resumeSend ::
  "Pending \<Rightarrow> js_error + GenerateContentResponse \<Rightarrow> MessageTimes \<Rightarrow> AppState \<Rightarrow> AppState" where
  "resumeSend p remote tm s =
     (case generateMathResponse remote of
        Inr response \<Rightarrow>
          s\<lparr> chats := appendAssistant (p_activeChatId p) (p_originalInput p)
                         \<lparr> msg_id = toString (tm_id tm + 1), msg_role = Assistant,
                           msg_content = mr_text response, msg_attachments = None,
                           msg_thinking = mr_thinking response,
                           msg_timestamp = tm_timestamp tm \<rparr>
                         (tm_lastModified tm) (chats s),
             isTyping := False \<rparr>
      | Inl error \<Rightarrow>
          s\<lparr> chats := appendError (p_activeChatId p)
                         \<lparr> msg_id = toString (tm_id tm + 1), msg_role = Assistant,
                           msg_content = errorText, msg_attachments = None,
                           msg_thinking = None, msg_timestamp = tm_timestamp tm \<rparr>
                         (chats s),
             isTyping := False \<rparr>)"

subsection \<open>The sidebar and the events of the controller\<close>

text \<open>
  \<open>Sidebar\<close> renders \<open>chats.sort((a,b) => b.lastModified - a.lastModified)\<close>.
  \<open>Array.prototype.sort\<close> sorts in place and is stable, and \<open>chats\<close> is the very
  array held by the state of \<open>App\<close>: every render leaves the state's array sorted by
  \<open>lastModified\<close>, latest first, and that is the array the handlers of the render read.
\<close>

definition Sidebar_sort :: "ChatSession list \<Rightarrow> ChatSession list" where
  "Sidebar_sort cs = sort_key (\<lambda>c. - lastModified c) cs"

definition renderApp :: "AppState \<Rightarrow> AppState" where
  "renderApp s = s\<lparr> chats := Sidebar_sort (chats s) \<rparr>"

text \<open>
  What can happen to the mounted component: the buttons of the sidebar (new chat,
  delete, select the \<open>k\<close>-th row), the input box, the file picker and the attachment
  chips, a call of \<open>sendMessage\<close>, and the settling of the remote call of the \<open>k\<close>-th
  suspended \<open>sendMessage\<close>. Each handler runs to its end (or to its \<open>await\<close>) on the
  state of the latest render, and the component renders again after it.
\<close>

datatype Event =
    NewChat ChatTimes
  | DeleteChat string
  | SelectChat nat
  | SetInputText string
  | FilesChosen "File list option"
  | RemoveAttachment nat
  | ClearAttachments
  | Send ChatTimes MessageTimes
  | Settled nat "js_error + GenerateContentResponse" MessageTimes

fun handle :: "Event \<Rightarrow> AppState \<Rightarrow> AppState" where
  "handle (NewChat t) s = startNewChat t s"
| "handle (DeleteChat i) s = deleteChat i s"
| "handle (SelectChat k) s =
     (if k < length (chats s) then s\<lparr> currentChatId := Some (chat_id (chats s ! k)) \<rparr> else s)"
| "handle (SetInputText v) s = s\<lparr> inputText := v \<rparr>"
| "handle (FilesChosen files) s =
     (case handleFileChange files s of None \<Rightarrow> s | Some (s', alerts) \<Rightarrow> s')"
| "handle (RemoveAttachment k) s =
     s\<lparr> attachments := take k (attachments s) @ drop (Suc k) (attachments s) \<rparr>"
| "handle ClearAttachments s = s\<lparr> attachments := [] \<rparr>"
| "handle (Send tc tm) s = sendMessage tc tm s"
| "handle (Settled k remote tm) s =
     (if k < length (inflight s)
      then (resumeSend (inflight s ! k) remote tm s)
             \<lparr> inflight := take k (inflight s) @ drop (Suc k) (inflight s) \<rparr>
      else s)"

definition step :: "Event \<Rightarrow> AppState \<Rightarrow> AppState" where
  "step e s = renderApp (handle e s)"

fun run :: "AppState \<Rightarrow> Event list \<Rightarrow> AppState" where
  "run s [] = s"
| "run s (e # es) = run (step e s) es"

text \<open>The store invariant: the current id is \<open>null\<close> or the id of a session of the store.\<close>

definition active_ok :: "AppState \<Rightarrow> bool" where
  "active_ok s =
     (case currentChatId s of None \<Rightarrow> True | Some i \<Rightarrow> i \<in> set (map chat_id (chats s)))"

text \<open>The state as a render leaves it: sorted by \<open>lastModified\<close>, latest first.\<close>

definition rendered :: "AppState \<Rightarrow> bool" where
  "rendered s = sorted (map (\<lambda>c. - lastModified c) (chats s))"

text \<open>
  Single flight: at most one call of the model is pending, and the typing flag is set
  exactly while one is.
\<close>

definition single_flight :: "AppState \<Rightarrow> bool" where
  "single_flight s = (length (inflight s) \<le> 1 \<and> isTyping s = (inflight s \<noteq> []))"

text \<open>The three invariants of the mounted component together.\<close>

definition invariant :: "AppState \<Rightarrow> bool" where
  "invariant s = (active_ok s \<and> rendered s \<and> single_flight s)"

text \<open>The component once mounted: the initial state, after its first render.\<close>

definition App_mount :: "StoredItem option \<Rightarrow> js_error + AppState" where
  "App_mount saved = (case App_init saved of Inl e \<Rightarrow> Inl e | Inr s \<Rightarrow> Inr (renderApp s))"

text \<open>The sequences of \<open>createSession\<close> and \<open>deleteSession\<close> operations.\<close>

fun isCreateOrDelete :: "Event \<Rightarrow> bool" where
  "isCreateOrDelete (NewChat t) = True"
| "isCreateOrDelete (DeleteChat i) = True"
| "isCreateOrDelete e = False"

section \<open>Math-aware text renderer (components/MathMarkdown.tsx)\<close>

subsection \<open>The three regular expressions\<close>

text \<open>
  \<open>splitAt d s\<close> cuts \<open>s\<close> at the first occurrence of the delimiter \<open>d\<close>: the text
  before it and the text after it.
\<close>

fun splitAt :: "string \<Rightarrow> string \<Rightarrow> (string \<times> string) option" where
  "splitAt d [] = None"
| "splitAt d (c # cs) =
     (if take (length d) (c # cs) = d then Some ([], drop (length d) (c # cs))
      else (case splitAt d cs of
              None \<Rightarrow> None
            | Some (before, after) \<Rightarrow> Some (c # before, after)))"

text \<open>
  A match of \<open>/\$\$\s*([\s\S]*?)\s*\$\$/\<close> at the start of \<open>s\<close>: the captured group
  and the text after the match. After the opening \<open>$$\<close> the first \<open>\s*\<close> takes all
  the white space; the lazy group then grows until what follows it is white space
  and \<open>$$\<close>, which is at the first \<open>$$\<close> from there on, so the group is the text up
  to that \<open>$$\<close> without its trailing white space. Giving white space back to the
  first \<open>\s*\<close> finds no other closing \<open>$$\<close>.
\<close>

definition matchBlock :: "string \<Rightarrow> (string \<times> string) option" where
  "matchBlock s =
     (if take 2 s = ''$$''
      then (case splitAt ''$$'' (dropWhile isWhiteSpace (drop 2 s)) of
              None \<Rightarrow> None
            | Some (body, rest) \<Rightarrow> Some (trimEnd body, rest))
      else None)"

text \<open>
  A match of \<open>/\$([^\$\n]+?)\$/\<close> at the start of \<open>s\<close>: a \<open>$\<close>, one or more
  characters other than \<open>$\<close> and the line feed, and a \<open>$\<close>.
\<close>

definition matchInline :: "string \<Rightarrow> (string \<times> string) option" where
  "matchInline s =
     (case s of
        [] \<Rightarrow> None
      | c # cs \<Rightarrow>
          (let body = takeWhile (\<lambda>x. x \<noteq> CHR ''$'' \<and> x \<noteq> CHR 0x0A) cs;
               rest = dropWhile (\<lambda>x. x \<noteq> CHR ''$'' \<and> x \<noteq> CHR 0x0A) cs
           in if c = CHR ''$'' \<and> body \<noteq> [] \<and> take 1 rest = ''$''
              then Some (body, drop 1 rest) else None))"

text \<open>
  A match of \<open>/\*\*(.*?)\*\*/\<close> at the start of \<open>s\<close>: the lazy group ends at the
  first \<open>**\<close> after the opening one, and \<open>.\<close> matches no line terminator (line feed
  and carriage return, among the code units below 256).
\<close>

definition isLineTerminator :: "char \<Rightarrow> bool" where
  "isLineTerminator c = (c = CHR 0x0A \<or> c = CHR 0x0D)"

definition matchBold :: "string \<Rightarrow> (string \<times> string) option" where
  "matchBold s =
     (if take 2 s = ''**''
      then (case splitAt ''**'' (drop 2 s) of
              None \<Rightarrow> None
            | Some (body, rest) \<Rightarrow>
                if list_ex isLineTerminator body then None else Some (body, rest))
      else None)"

lemma splitAt_length: "splitAt d s = Some (b, a) \<Longrightarrow> length a \<le> length s"
  by (induction s arbitrary: b) (auto split: if_splits option.splits)

lemma matchBlock_length:
  assumes "matchBlock s = Some (g, rest)"
  shows "length rest < length s"
proof -
  from assms have t: "take 2 s = ''$$''"
    by (auto simp: matchBlock_def split: if_splits)
  then have l: "2 \<le> length s"
    by (cases s; cases "tl s") auto
  from assms t obtain body
    where "splitAt ''$$'' (dropWhile isWhiteSpace (drop 2 s)) = Some (body, rest)"
    by (auto simp: matchBlock_def split: option.splits)
  then have "length rest \<le> length (dropWhile isWhiteSpace (drop 2 s))"
    by (rule splitAt_length)
  also have "\<dots> \<le> length (drop 2 s)"
    by (rule length_dropWhile_le)
  finally show ?thesis using l by simp
qed

lemma matchInline_length:
  assumes "matchInline s = Some (g, rest)"
  shows "length rest < length s"
proof (cases s)
  case Nil
  with assms show ?thesis by (simp add: matchInline_def)
next
  case (Cons c cs)
  with assms have "rest = drop 1 (dropWhile (\<lambda>x. x \<noteq> CHR ''$'' \<and> x \<noteq> CHR 0x0A) cs)"
    by (auto simp: matchInline_def Let_def split: if_splits)
  moreover have "length (dropWhile (\<lambda>x. x \<noteq> CHR ''$'' \<and> x \<noteq> CHR 0x0A) cs) \<le> length cs"
    by (rule length_dropWhile_le)
  ultimately show ?thesis using Cons by simp
qed

lemma matchBold_length:
  assumes "matchBold s = Some (g, rest)"
  shows "length rest < length s"
proof -
  from assms have t: "take 2 s = ''**''"
    by (auto simp: matchBold_def split: if_splits)
  then have l: "2 \<le> length s"
    by (cases s; cases "tl s") auto
  from assms t obtain body where "splitAt ''**'' (drop 2 s) = Some (body, rest)"
    by (auto simp: matchBold_def split: option.splits if_splits)
  then have "length rest \<le> length (drop 2 s)"
    by (rule splitAt_length)
  then show ?thesis using l by simp
qed

text \<open>
  \<open>String.prototype.replace\<close> with a global regular expression and a function: the
  text is scanned from the left, each match is replaced by what the function
  returns for its group and the scan goes on after the match; a character where no
  match starts is copied. A function that throws aborts the replacement.
\<close>

function replaceBlock :: "(string \<Rightarrow> js_error + string) \<Rightarrow> string \<Rightarrow> js_error + string" where
  "replaceBlock f [] = Inr []"
| "replaceBlock f (c # cs) =
     (case matchBlock (c # cs) of
        Some (math, rest) \<Rightarrow>
          (case f math of
             Inl e \<Rightarrow> Inl e
           | Inr r \<Rightarrow> (case replaceBlock f rest of Inl e \<Rightarrow> Inl e | Inr t \<Rightarrow> Inr (r @ t)))
      | None \<Rightarrow> (case replaceBlock f cs of Inl e \<Rightarrow> Inl e | Inr t \<Rightarrow> Inr (c # t)))"
  by pat_completeness auto
termination
  by (relation "measure (\<lambda>(f, s). length s)") (auto dest: matchBlock_length)

function replaceInline :: "(string \<Rightarrow> js_error + string) \<Rightarrow> string \<Rightarrow> js_error + string" where
  "replaceInline f [] = Inr []"
| "replaceInline f (c # cs) =
     (case matchInline (c # cs) of
        Some (math, rest) \<Rightarrow>
          (case f math of
             Inl e \<Rightarrow> Inl e
           | Inr r \<Rightarrow> (case replaceInline f rest of Inl e \<Rightarrow> Inl e | Inr t \<Rightarrow> Inr (r @ t)))
      | None \<Rightarrow> (case replaceInline f cs of Inl e \<Rightarrow> Inl e | Inr t \<Rightarrow> Inr (c # t)))"
  by pat_completeness auto
termination
  by (relation "measure (\<lambda>(f, s). length s)") (auto dest: matchInline_length)

text \<open>\<open>lineHtml.replace(/\*\*(.*?)\*\*/g, '<strong>$1</strong>')\<close>\<close>

function replaceBold :: "string \<Rightarrow> string" where
  "replaceBold [] = []"
| "replaceBold (c # cs) =
     (case matchBold (c # cs) of
        Some (body, rest) \<Rightarrow> ''<strong>'' @ body @ ''</strong>'' @ replaceBold rest
      | None \<Rightarrow> c # replaceBold cs)"
  by pat_completeness auto
termination
  by (relation "measure length") (auto dest: matchBold_length)

subsection \<open>The component\<close>

text \<open>
  \<open>katex.renderToString(text, {displayMode: isBlock, ...})\<close> is the typesetting
  backend: a parameter, which returns markup or throws. \<open>renderMath\<close> wraps the call
  in \<open>try\<close>/\<open>catch\<close>.
\<close>

type_synonym katex = "string \<Rightarrow> bool \<Rightarrow> js_error + string"

definition renderMath :: "katex \<Rightarrow> string \<Rightarrow> bool \<Rightarrow> js_error + string" where
  "renderMath renderToString text isBlock =
     (case renderToString text isBlock of
        Inr html \<Rightarrow> Inr html
      | Inl e \<Rightarrow> Inr text)"

definition displayOpen :: string where
  "displayOpen = ''<div class=\"katex-display-container\">''"

definition displayClose :: string where
  "displayClose = ''</div>''"

text \<open>The function given to the first \<open>replace\<close> (line 35).\<close>

definition blockReplacer :: "katex \<Rightarrow> string \<Rightarrow> js_error + string" where
  "blockReplacer renderToString math =
     (case renderMath renderToString math True of
        Inl e \<Rightarrow> Inl e
      | Inr html \<Rightarrow> Inr (displayOpen @ html @ displayClose))"

text \<open>\<open>processed.split('\n')\<close>\<close>

fun splitLines :: "string \<Rightarrow> string list" where
  "splitLines [] = [[]]"
| "splitLines (c # cs) =
     (if c = CHR 0x0A then [] # splitLines cs
      else (case splitLines cs of [] \<Rightarrow> [[c]] | l # ls \<Rightarrow> (c # l) # ls))"

text \<open>\<open>/^\d+\. /.test(t)\<close>\<close>

definition isDigit :: "char \<Rightarrow> bool" where
  "isDigit c = (c \<in> set ''0123456789'')"

definition isOrderedItem :: "string \<Rightarrow> bool" where
  "isOrderedItem t = (takeWhile isDigit t \<noteq> [] \<and> take 2 (dropWhile isDigit t) = ''. '')"

text \<open>\<open>line.indexOf(' ')\<close>: the index of the first space, \<open>-1\<close> when there is none.\<close>

definition indexOfSpace :: "string \<Rightarrow> int" where
  "indexOfSpace line =
     (if CHR '' '' \<in> set line then int (length (takeWhile (\<lambda>c. c \<noteq> CHR '' '') line)) else - 1)"

text \<open>
  The elements the component returns for the lines: \<open><li>\<close> of a bulleted or a
  numbered list, \<open><br>\<close>, and \<open><p>\<close>; each \<open><li>\<close> and \<open><p>\<close> with the markup it is
  given as \<open>dangerouslySetInnerHTML\<close>.
\<close>

datatype Element = Li_disc string | Li_decimal string | Br | P string

definition renderLine :: "string \<Rightarrow> Element" where
  "renderLine line =
     (let lineHtml = replaceBold line in
      if take 2 (trim line) = ''* '' \<or> take 2 (trim line) = ''- ''
        then Li_disc (drop 2 (trim lineHtml))
      else if isOrderedItem (trim line)
        then Li_decimal (drop (nat (indexOfSpace line + 1)) (trim lineHtml))
      else if trim line = [] then Br
      else P lineHtml)"

text \<open>
  What \<open>renderedContent\<close> is: \<open>null\<close> for empty content, the content itself when
  \<open>window.katex\<close> is missing, and the array of elements otherwise.
\<close>

datatype Rendered = Null | Raw string | Elements "Element list"

definition MathMarkdown :: "katex option \<Rightarrow> string \<Rightarrow> js_error + Rendered" where
  "MathMarkdown window_katex content =
     (if content = [] then Inr Null
      else (case window_katex of
              None \<Rightarrow> Inr (Raw content)
            | Some renderToString \<Rightarrow>
                (case replaceBlock (blockReplacer renderToString) content of
                   Inl e \<Rightarrow> Inl e
                 | Inr processed1 \<Rightarrow>
                     (case replaceInline (\<lambda>math. renderMath renderToString math False) processed1 of
                        Inl e \<Rightarrow> Inl e
                      | Inr processed \<Rightarrow>
                          Inr (Elements (map renderLine (splitLines processed)))))))"

text \<open>
  The input of the block-math scenario, \<open>$$\int_0^\infty \frac{\sin x}{x}dx$$\<close>, and
  the formula between its delimiters. A string literal cannot hold a backslash,
  which is the character \<open>0x5C\<close>.
\<close>

definition integralTeX :: string where
  "integralTeX = CHR 0x5C # ''int_0^'' @ CHR 0x5C # ''infty '' @ CHR 0x5C # ''frac{''
                   @ CHR 0x5C # ''sin x}{x}dx''"

definition integralQuery :: string where
  "integralQuery = ''$$'' @ integralTeX @ ''$$''"

text \<open>The blocks that are paragraphs, and the blocks that are anything else.\<close>

fun isParagraph :: "Element \<Rightarrow> bool" where
  "isParagraph (P html) = True"
| "isParagraph e = False"

section \<open>Theorems: the model orchestrator\<close>

lemma textPart_none: "\<forall>p\<in>set ps. \<not> truthy (part_text p) \<Longrightarrow> textPart ps = []"
  by (induction ps) (auto simp: textPart_def)

lemma thinkingPart_none: "\<forall>p\<in>set ps. \<not> truthy (part_thought p) \<Longrightarrow> thinkingPart ps = []"
  by (induction ps) (auto simp: thinkingPart_def)

text \<open>
  Claim C7, as the code has it. Take a reply none of whose parts carries usable text.
  If it carries a non-empty convenience text \<open>t\<close> and no part carries a reasoning
  text, \<open>generateMathResponse\<close> resolves to the answer \<open>t\<close> with the reasoning trace
  being the empty string (not \<open>undefined\<close>). If the convenience text is missing or
  empty as well, it resolves (it does not throw) to the fixed apology as the answer.
\<close>

theorem generate_plain_text_only:
  assumes "\<forall>p\<in>set (response_parts r). \<not> truthy (part_text p)"
  shows "(resp_text r = Some t \<and> t \<noteq> [] \<and> (\<forall>p\<in>set (response_parts r). \<not> truthy (part_thought p))
            \<longrightarrow> generateMathResponse (Inr r) = Inr \<lparr> mr_text = t, mr_thinking = Some [] \<rparr>)
       \<and> (\<not> truthy (resp_text r)
            \<longrightarrow> generateMathResponse (Inr r)
                  = Inr \<lparr> mr_text = apology, mr_thinking = Some (thinkingPart (response_parts r)) \<rparr>)"
  using assms
  by (auto simp: generateMathResponse_def decompose_def Let_def or_else_def textPart_none
        thinkingPart_none truthy_def split: option.splits)

text \<open>
  The theorem at two replies: one with the convenience text \<open>x = 2\<close> and no candidates,
  and one whose only part has an empty text and which has no convenience text.
\<close>

theorem generate_plain_text_only_witness:
  "generateMathResponse (Inr \<lparr> resp_candidates = None, resp_text = Some ''x = 2'' \<rparr>)
     = Inr \<lparr> mr_text = ''x = 2'', mr_thinking = Some [] \<rparr>
   \<and> generateMathResponse
       (Inr \<lparr> resp_candidates =
                Some [\<lparr> cand_content =
                         Some \<lparr> content_parts =
                                  Some [\<lparr> part_text = Some [], part_thought = None \<rparr>] \<rparr> \<rparr>],
              resp_text = None \<rparr>)
     = Inr \<lparr> mr_text = apology, mr_thinking = Some [] \<rparr>"
proof -
  let ?r1 = "\<lparr> resp_candidates = None, resp_text = Some ''x = 2'' \<rparr>"
  let ?r2 = "\<lparr> resp_candidates =
                Some [\<lparr> cand_content =
                         Some \<lparr> content_parts =
                                  Some [\<lparr> part_text = Some [], part_thought = None \<rparr>] \<rparr> \<rparr>],
              resp_text = None \<rparr>"
  have h1: "\<forall>p\<in>set (response_parts ?r1). \<not> truthy (part_text p)"
    by (simp add: response_parts_def)
  have h2: "\<forall>p\<in>set (response_parts ?r2). \<not> truthy (part_text p)"
    by (simp add: response_parts_def truthy_def)
  show ?thesis
    using generate_plain_text_only [OF h1, of "''x = 2''"] generate_plain_text_only [OF h2, of "[]"]
    by (simp add: response_parts_def truthy_def thinkingPart_def)
qed

text \<open>
  Claim C7 as stated asks for the reasoning trace to be \<open>undefined\<close>. For the reply
  that carries only the convenience text \<open>x = 2\<close> the code returns the empty string.
\<close>

theorem generate_thinking_counterexample:
  "generateMathResponse (Inr \<lparr> resp_candidates = None, resp_text = Some ''x = 2'' \<rparr>)
     \<noteq> Inr \<lparr> mr_text = ''x = 2'', mr_thinking = None \<rparr>"
  by (simp add: generateMathResponse_def decompose_def response_parts_def textPart_def
        thinkingPart_def or_else_def)

section \<open>Theorems: the session controller\<close>

subsection \<open>Initialization from durable storage\<close>

text \<open>
  Claim C2, as the code has it. If the stored value is absent, or is the empty
  string, the store starts empty. If it is a string that \<open>JSON.parse\<close> turns into
  the sessions \<open>cs\<close>, the store starts with \<open>cs\<close> and with the first of them (if any)
  as the current session. If \<open>JSON.parse\<close> throws on it, the initializer throws the
  same error: the store is not reset to the empty store.
\<close>

theorem App_init_cases:
  "(saved = None \<longrightarrow> App_init saved = Inr empty_store)
   \<and> (saved = Some it \<and> item_raw it = [] \<longrightarrow> App_init saved = Inr empty_store)
   \<and> (saved = Some it \<and> item_raw it \<noteq> [] \<and> item_parsed it = Inr cs \<longrightarrow>
        App_init saved =
          Inr (empty_store\<lparr> chats := cs,
                 currentChatId := (case cs of [] \<Rightarrow> None | c # _ \<Rightarrow> Some (chat_id c)) \<rparr>))
   \<and> (saved = Some it \<and> item_raw it \<noteq> [] \<and> item_parsed it = Inl e \<longrightarrow>
        App_init saved = Inl e)"
  by (simp add: App_init_def init_chats_def init_currentChatId_def empty_store_def)

text \<open>
  The theorem at four stored values: none, the empty string, the text \<open>[]\<close> (an empty
  array) and the text \<open>[{\<close>, on which \<open>JSON.parse\<close> throws a \<open>SyntaxError\<close>.
\<close>

theorem App_init_cases_witness:
  "App_init None = Inr empty_store
   \<and> App_init (Some \<lparr> item_raw = [], item_parsed = Inl SyntaxError \<rparr>) = Inr empty_store
   \<and> App_init (Some \<lparr> item_raw = ''[]'', item_parsed = Inr [] \<rparr>) = Inr empty_store
   \<and> App_init (Some \<lparr> item_raw = ''[{'', item_parsed = Inl SyntaxError \<rparr>) = Inl SyntaxError"
  using App_init_cases [of None undefined "[]" SyntaxError]
    App_init_cases [of "Some \<lparr> item_raw = [], item_parsed = Inl SyntaxError \<rparr>"
                       "\<lparr> item_raw = [], item_parsed = Inl SyntaxError \<rparr>" "[]" SyntaxError]
    App_init_cases [of "Some \<lparr> item_raw = ''[]'', item_parsed = Inr [] \<rparr>"
                       "\<lparr> item_raw = ''[]'', item_parsed = Inr [] \<rparr>" "[]" SyntaxError]
    App_init_cases [of "Some \<lparr> item_raw = ''[{'', item_parsed = Inl SyntaxError \<rparr>"
                       "\<lparr> item_raw = ''[{'', item_parsed = Inl SyntaxError \<rparr>" "[]" SyntaxError]
  by (simp add: empty_store_def)

text \<open>
  Claim C2 as stated asks that malformed storage never crash the initialization and
  reset the store to the empty store. With the malformed text \<open>[{\<close> in storage the
  initializer throws the \<open>SyntaxError\<close> of \<open>JSON.parse\<close>.
\<close>

theorem App_init_malformed_counterexample:
  "App_init (Some \<lparr> item_raw = ''[{'', item_parsed = Inl SyntaxError \<rparr>) = Inl SyntaxError
   \<and> App_init (Some \<lparr> item_raw = ''[{'', item_parsed = Inl SyntaxError \<rparr>) \<noteq> Inr empty_store"
  by (simp add: App_init_def init_chats_def init_currentChatId_def)

subsection \<open>Attachment ingestion\<close>

lemma readFiles_accepts:
  assumes "\<forall>f\<in>set fs. file_size f \<le> maxFileSize \<longrightarrow> file_dataURL f \<noteq> None"
  shows "readFiles fs acc al =
           Some (acc @ map (\<lambda>f. attachmentOf f (the (file_dataURL f)))
                         (filter (\<lambda>f. file_size f \<le> maxFileSize) fs),
                 al @ replicate (length (filter (\<lambda>f. file_size f > maxFileSize) fs)) tooLarge)"
  using assms
proof (induction fs arbitrary: acc al)
  case Nil
  then show ?case by simp
next
  case (Cons f fs)
  show ?case
  proof (cases "file_size f > maxFileSize")
    case True
    with Cons show ?thesis by (simp add: replicate_app_Cons_same)
  next
    case False
    with Cons.prems obtain d where "file_dataURL f = Some d" by auto
    with False Cons show ?thesis by simp
  qed
qed

text \<open>
  Claim C8. Take any files picked together, those within the bound being read to the
  end (ingested). \<open>handleFileChange\<close> completes; it shows one warning for each file
  over 10 MiB and drops that file; it adds every file of at most 10 MiB, in order,
  to the attachments that were already pending; and it leaves the text of the input
  box as it is. A submission made then (the controller being idle and the text not
  blank) passes that text and all those attachments to the model.
\<close>

theorem handleFileChange_drops_oversized:
  assumes "\<forall>f\<in>set fs. file_size f \<le> maxFileSize \<longrightarrow> file_dataURL f \<noteq> None"
  shows "\<exists>s'. handleFileChange (Some fs) s =
                 Some (s', replicate (length (filter (\<lambda>f. file_size f > maxFileSize) fs)) tooLarge)
            \<and> attachments s' =
                 attachments s @ map (\<lambda>f. attachmentOf f (the (file_dataURL f)))
                                    (filter (\<lambda>f. file_size f \<le> maxFileSize) fs)
            \<and> inputText s' = inputText s
            \<and> (\<not> isTyping s \<and> trim (inputText s) \<noteq> [] \<longrightarrow>
                 inflight (sendMessage tc tm s') \<noteq> [] \<and>
                 p_originalInput (last (inflight (sendMessage tc tm s'))) = inputText s \<and>
                 p_originalAttachments (last (inflight (sendMessage tc tm s'))) = attachments s')"
  using readFiles_accepts [OF assms, of "[]" "[]"]
  by (simp add: handleFileChange_def sendMessage_def Let_def)

text \<open>
  The scenario of the specification: a file of 11 MiB and a file of 1 MiB picked
  together, with the text \<open>integrate this\<close> in the input box of an idle controller.
\<close>

theorem handleFileChange_drops_oversized_witness:
  "\<exists>s'. handleFileChange
          (Some [\<lparr> file_name = ''scan.png'', file_type = ''image/png'',
                   file_size = 11 * 1024 * 1024,
                   file_dataURL = Some ''data:image/png;base64,AAAA'' \<rparr>,
                 \<lparr> file_name = ''notes.pdf'', file_type = ''application/pdf'',
                   file_size = 1024 * 1024,
                   file_dataURL = Some ''data:application/pdf;base64,BBBB'' \<rparr>])
          (empty_store\<lparr> inputText := ''integrate this'' \<rparr>)
        = Some (s', [tooLarge])
      \<and> attachments s' = [\<lparr> att_name = ''notes.pdf'', att_type = ''application/pdf'',
                             att_data = ''data:application/pdf;base64,BBBB'' \<rparr>]
      \<and> inputText s' = ''integrate this''
      \<and> p_originalInput
          (last (inflight (sendMessage \<lparr> tc_id = 7, tc_createdAt = 7, tc_lastModified = 7 \<rparr>
                             \<lparr> tm_id = 7, tm_timestamp = 7, tm_lastModified = 7 \<rparr> s')))
        = ''integrate this''
      \<and> p_originalAttachments
          (last (inflight (sendMessage \<lparr> tc_id = 7, tc_createdAt = 7, tc_lastModified = 7 \<rparr>
                             \<lparr> tm_id = 7, tm_timestamp = 7, tm_lastModified = 7 \<rparr> s')))
        = [\<lparr> att_name = ''notes.pdf'', att_type = ''application/pdf'',
             att_data = ''data:application/pdf;base64,BBBB'' \<rparr>]"
proof -
  let ?big = "\<lparr> file_name = ''scan.png'', file_type = ''image/png'',
                 file_size = 11 * 1024 * 1024,
                 file_dataURL = Some ''data:image/png;base64,AAAA'' \<rparr>"
  let ?small = "\<lparr> file_name = ''notes.pdf'', file_type = ''application/pdf'',
                   file_size = 1024 * 1024,
                   file_dataURL = Some ''data:application/pdf;base64,BBBB'' \<rparr>"
  let ?s = "empty_store\<lparr> inputText := ''integrate this'' \<rparr>"
  have h: "\<forall>f\<in>set [?big, ?small]. file_size f \<le> maxFileSize \<longrightarrow> file_dataURL f \<noteq> None"
    by simp
  have idle: "\<not> isTyping ?s"
    by (simp add: empty_store_def)
  have nonblank: "trim (inputText ?s) \<noteq> []"
    by (simp add: trim_def trimStart_def trimEnd_def isWhiteSpace_def)
  from handleFileChange_drops_oversized [OF h, of ?s
        "\<lparr> tc_id = 7, tc_createdAt = 7, tc_lastModified = 7 \<rparr>"
        "\<lparr> tm_id = 7, tm_timestamp = 7, tm_lastModified = 7 \<rparr>"] idle nonblank
  obtain s' where
    "handleFileChange (Some [?big, ?small]) ?s = Some (s', [tooLarge])"
    "attachments s' = [\<lparr> att_name = ''notes.pdf'', att_type = ''application/pdf'',
                          att_data = ''data:application/pdf;base64,BBBB'' \<rparr>]"
    "inputText s' = ''integrate this''"
    "p_originalInput
       (last (inflight (sendMessage \<lparr> tc_id = 7, tc_createdAt = 7, tc_lastModified = 7 \<rparr>
                          \<lparr> tm_id = 7, tm_timestamp = 7, tm_lastModified = 7 \<rparr> s')))
     = ''integrate this''"
    "p_originalAttachments
       (last (inflight (sendMessage \<lparr> tc_id = 7, tc_createdAt = 7, tc_lastModified = 7 \<rparr>
                          \<lparr> tm_id = 7, tm_timestamp = 7, tm_lastModified = 7 \<rparr> s')))
     = attachments s'"
    by (auto simp add: maxFileSize_def attachmentOf_def empty_store_def)
  then show ?thesis
    by (intro exI [of _ s']) simp
qed

subsection \<open>Submission\<close>

text \<open>
  Claim C9 at a failing submission. From the empty store the text \<open>2+2\<close> is sent, the
  user message being appended at time 1001, and the remote call then fails at time
  5000. The session holds two messages, the second being the fallback message of
  time 5000, and its \<open>lastModified\<close> is still 1001: the updater of the \<open>catch\<close> branch
  does not write it. The same call resolving at time 5000 leaves \<open>lastModified\<close> at
  5000.
\<close>

theorem sendMessage_failure_lastModified:
  "map (\<lambda>c. (map msg_timestamp (chat_messages c), lastModified c))
     (chats (run empty_store
        [SetInputText ''2+2'',
         Send \<lparr> tc_id = 1000, tc_createdAt = 1000, tc_lastModified = 1000 \<rparr>
              \<lparr> tm_id = 1000, tm_timestamp = 1000, tm_lastModified = 1001 \<rparr>,
         Settled 0 (Inl (OtherError ''offline''))
              \<lparr> tm_id = 5000, tm_timestamp = 5000, tm_lastModified = 5000 \<rparr>]))
   = [([1000, 5000], 1001)]
   \<and> map (\<lambda>c. (map msg_timestamp (chat_messages c), lastModified c))
     (chats (run empty_store
        [SetInputText ''2+2'',
         Send \<lparr> tc_id = 1000, tc_createdAt = 1000, tc_lastModified = 1000 \<rparr>
              \<lparr> tm_id = 1000, tm_timestamp = 1000, tm_lastModified = 1001 \<rparr>,
         Settled 0 (Inr \<lparr> resp_candidates = None, resp_text = Some ''4'' \<rparr>)
              \<lparr> tm_id = 5000, tm_timestamp = 5000, tm_lastModified = 5000 \<rparr>]))
   = [([1000, 5000], 5000)]"
  by (simp add: empty_store_def step_def renderApp_def Sidebar_sort_def sendMessage_def
        trim_def trimStart_def trimEnd_def isWhiteSpace_def Let_def noActiveChat_def
        appendMessage_def resumeSend_def generateMathResponse_def appendError_def
        appendAssistant_def)

lemma newChatTitle_eq:
  "newChatTitle input = (if input = [] then ''Multimodal Query'' else take 35 input)"
  by (cases input) (simp_all add: newChatTitle_def or_else_def)

text \<open>
  Claim C10, as the code has it. When no submission is in flight, no session is
  current, and the input is not empty (the text is not blank or there is an
  attachment), \<open>sendMessage\<close> puts a fresh session at the head of the store, titled
  with the first 35 characters of the text, or \<open>Multimodal Query\<close> when the text is
  empty, holding the user message as its only message; it makes that session the
  current one; it clears the input; and it calls the model with the text and the
  attachments.
\<close>

theorem sendMessage_creates_session:
  assumes "\<not> isTyping s"
    and "currentChatId s = None"
    and "trim (inputText s) \<noteq> [] \<or> attachments s \<noteq> []"
  shows "currentChatId (sendMessage tc tm s) = Some (toString (tc_id tc))
       \<and> chats (sendMessage tc tm s) =
           \<lparr> chat_id = toString (tc_id tc),
             chat_title = (if inputText s = [] then ''Multimodal Query''
                           else take 35 (inputText s)),
             chat_messages = [\<lparr> msg_id = toString (tm_id tm), msg_role = User,
                                 msg_content = inputText s,
                                 msg_attachments = Some (attachments s), msg_thinking = None,
                                 msg_timestamp = tm_timestamp tm \<rparr>],
             createdAt = tc_createdAt tc,
             lastModified = tm_lastModified tm \<rparr>
           # appendMessage (toString (tc_id tc))
               \<lparr> msg_id = toString (tm_id tm), msg_role = User, msg_content = inputText s,
                 msg_attachments = Some (attachments s), msg_thinking = None,
                 msg_timestamp = tm_timestamp tm \<rparr>
               (tm_lastModified tm) (chats s)
       \<and> inputText (sendMessage tc tm s) = []
       \<and> attachments (sendMessage tc tm s) = []
       \<and> isTyping (sendMessage tc tm s)
       \<and> map p_originalInput (inflight (sendMessage tc tm s))
           = map p_originalInput (inflight s) @ [inputText s]
       \<and> map p_originalAttachments (inflight (sendMessage tc tm s))
           = map p_originalAttachments (inflight s) @ [attachments s]"
  using assms
  by (auto simp add: sendMessage_def Let_def noActiveChat_def appendMessage_def newChatTitle_eq)

text \<open>
  The theorem at the empty store with the text \<open>2+2\<close> in the input box, sent at
  time 1000.
\<close>

theorem sendMessage_creates_session_witness:
  "\<not> isTyping (empty_store\<lparr> inputText := ''2+2'' \<rparr>)
   \<and> currentChatId (empty_store\<lparr> inputText := ''2+2'' \<rparr>) = None
   \<and> trim (inputText (empty_store\<lparr> inputText := ''2+2'' \<rparr>)) = ''2+2''
   \<and> currentChatId
        (sendMessage \<lparr> tc_id = 1000, tc_createdAt = 1000, tc_lastModified = 1000 \<rparr>
           \<lparr> tm_id = 1000, tm_timestamp = 1000, tm_lastModified = 1001 \<rparr>
           (empty_store\<lparr> inputText := ''2+2'' \<rparr>)) = Some ''1000''
   \<and> chats
        (sendMessage \<lparr> tc_id = 1000, tc_createdAt = 1000, tc_lastModified = 1000 \<rparr>
           \<lparr> tm_id = 1000, tm_timestamp = 1000, tm_lastModified = 1001 \<rparr>
           (empty_store\<lparr> inputText := ''2+2'' \<rparr>))
      = [\<lparr> chat_id = ''1000'', chat_title = ''2+2'',
           chat_messages = [\<lparr> msg_id = ''1000'', msg_role = User, msg_content = ''2+2'',
                               msg_attachments = Some [], msg_thinking = None,
                               msg_timestamp = 1000 \<rparr>],
           createdAt = 1000, lastModified = 1001 \<rparr>]"
proof -
  let ?s = "empty_store\<lparr> inputText := ''2+2'' \<rparr>"
  have idle: "\<not> isTyping ?s" and none: "currentChatId ?s = None"
    by (simp_all add: empty_store_def)
  have tr: "trim (inputText ?s) = ''2+2''"
    by (simp add: trim_def trimStart_def trimEnd_def isWhiteSpace_def)
  then have nonblank: "trim (inputText ?s) \<noteq> [] \<or> attachments ?s \<noteq> []"
    by simp
  have ts: "toString 1000 = ''1000''"
    by (simp add: toString_def digits.simps)
  show ?thesis
    using sendMessage_creates_session [OF idle none nonblank,
        of "\<lparr> tc_id = 1000, tc_createdAt = 1000, tc_lastModified = 1000 \<rparr>"
           "\<lparr> tm_id = 1000, tm_timestamp = 1000, tm_lastModified = 1001 \<rparr>"] idle none tr ts
    by (simp add: empty_store_def appendMessage_def)
qed

text \<open>
  Claim C10 as stated has no condition on the controller being idle. From the empty
  store, send \<open>2+2\<close> (which makes session \<open>1000\<close>), delete that session while the
  model call is pending, and type \<open>3+3\<close>: no session is current and the input is not
  empty, yet a call of \<open>sendMessage\<close> changes nothing, because a submission is in
  flight. No session is created and the store stays empty.
\<close>

theorem sendMessage_busy_counterexample:
  "currentChatId (run empty_store
      [SetInputText ''2+2'',
       Send \<lparr> tc_id = 1000, tc_createdAt = 1000, tc_lastModified = 1000 \<rparr>
            \<lparr> tm_id = 1000, tm_timestamp = 1000, tm_lastModified = 1001 \<rparr>,
       DeleteChat ''1000'',
       SetInputText ''3+3'']) = None
   \<and> inputText (run empty_store
      [SetInputText ''2+2'',
       Send \<lparr> tc_id = 1000, tc_createdAt = 1000, tc_lastModified = 1000 \<rparr>
            \<lparr> tm_id = 1000, tm_timestamp = 1000, tm_lastModified = 1001 \<rparr>,
       DeleteChat ''1000'',
       SetInputText ''3+3'']) = ''3+3''
   \<and> chats (sendMessage \<lparr> tc_id = 2000, tc_createdAt = 2000, tc_lastModified = 2000 \<rparr>
              \<lparr> tm_id = 2000, tm_timestamp = 2000, tm_lastModified = 2001 \<rparr>
        (run empty_store
          [SetInputText ''2+2'',
           Send \<lparr> tc_id = 1000, tc_createdAt = 1000, tc_lastModified = 1000 \<rparr>
                \<lparr> tm_id = 1000, tm_timestamp = 1000, tm_lastModified = 1001 \<rparr>,
           DeleteChat ''1000'',
           SetInputText ''3+3''])) = []
   \<and> currentChatId (sendMessage \<lparr> tc_id = 2000, tc_createdAt = 2000, tc_lastModified = 2000 \<rparr>
              \<lparr> tm_id = 2000, tm_timestamp = 2000, tm_lastModified = 2001 \<rparr>
        (run empty_store
          [SetInputText ''2+2'',
           Send \<lparr> tc_id = 1000, tc_createdAt = 1000, tc_lastModified = 1000 \<rparr>
                \<lparr> tm_id = 1000, tm_timestamp = 1000, tm_lastModified = 1001 \<rparr>,
           DeleteChat ''1000'',
           SetInputText ''3+3''])) = None"
proof -
  have ts: "toString 1000 = ''1000''"
    by (simp add: toString_def digits.simps)
  have r: "run empty_store
      [SetInputText ''2+2'',
       Send \<lparr> tc_id = 1000, tc_createdAt = 1000, tc_lastModified = 1000 \<rparr>
            \<lparr> tm_id = 1000, tm_timestamp = 1000, tm_lastModified = 1001 \<rparr>,
       DeleteChat ''1000'',
       SetInputText ''3+3'']
     = \<lparr> chats = [], currentChatId = None, inputText = ''3+3'', attachments = [],
         isTyping = True,
         inflight = [\<lparr> p_activeChatId = ''1000'', p_chatHistory = [],
                        p_originalInput = ''2+2'', p_originalAttachments = [] \<rparr>] \<rparr>"
    by (simp add: empty_store_def step_def renderApp_def Sidebar_sort_def sendMessage_def
          trim_def trimStart_def trimEnd_def isWhiteSpace_def Let_def noActiveChat_def
          appendMessage_def deleteChat_def ts)
  show ?thesis
    unfolding r by (simp add: sendMessage_def)
qed

subsection \<open>Invariants of the mounted controller\<close>

lemma ids_appendMessage: "map chat_id (appendMessage i m t cs) = map chat_id cs"
  by (induction cs) (simp_all add: appendMessage_def)

lemma ids_appendAssistant: "map chat_id (appendAssistant i inp m t cs) = map chat_id cs"
  by (induction cs) (simp_all add: appendAssistant_def)

lemma ids_appendError: "map chat_id (appendError i m cs) = map chat_id cs"
  by (induction cs) (simp_all add: appendError_def)

lemma idset_appendMessage: "chat_id ` set (appendMessage i m t cs) = chat_id ` set cs"
  by (simp only: set_map [symmetric] ids_appendMessage)

lemma idset_appendAssistant: "chat_id ` set (appendAssistant i inp m t cs) = chat_id ` set cs"
  by (simp only: set_map [symmetric] ids_appendAssistant)

lemma idset_appendError: "chat_id ` set (appendError i m cs) = chat_id ` set cs"
  by (simp only: set_map [symmetric] ids_appendError)

lemma ids_Sidebar_sort: "set (map chat_id (Sidebar_sort cs)) = set (map chat_id cs)"
  by (simp add: Sidebar_sort_def)

lemma rendered_renderApp: "rendered (renderApp s)"
  by (simp add: rendered_def renderApp_def Sidebar_sort_def)

lemma active_ok_renderApp: "active_ok s \<Longrightarrow> active_ok (renderApp s)"
  using ids_Sidebar_sort [of "chats s"]
  by (simp add: active_ok_def renderApp_def split: option.splits)

lemma single_flight_renderApp: "single_flight s \<Longrightarrow> single_flight (renderApp s)"
  by (simp add: single_flight_def renderApp_def)

lemma active_ok_startNewChat: "active_ok (startNewChat t s)"
  by (simp add: active_ok_def startNewChat_def Let_def)

lemma active_ok_deleteChat: "active_ok s \<Longrightarrow> active_ok (deleteChat i s)"
  by (auto simp: active_ok_def deleteChat_def Let_def split: option.splits list.splits
        dest: arg_cong [where f = set])

lemma handleFileChange_store:
  "handleFileChange files s = Some (s', al) \<Longrightarrow>
     chats s' = chats s \<and> currentChatId s' = currentChatId s
     \<and> isTyping s' = isTyping s \<and> inflight s' = inflight s \<and> inputText s' = inputText s"
  by (auto simp: handleFileChange_def split: option.splits)

lemma active_ok_sendMessage: "active_ok s \<Longrightarrow> active_ok (sendMessage tc tm s)"
  by (auto simp: active_ok_def sendMessage_def Let_def noActiveChat_def idset_appendMessage
        split: option.splits)

lemma active_ok_resumeSend: "active_ok s \<Longrightarrow> active_ok (resumeSend p remote tm s)"
  by (auto simp: active_ok_def resumeSend_def idset_appendAssistant idset_appendError
        split: option.splits sum.splits)

lemma active_ok_handle: "active_ok s \<Longrightarrow> active_ok (handle e s)"
proof (cases e)
  case (NewChat t)
  then show ?thesis by (simp add: active_ok_startNewChat)
next
  case (DeleteChat i)
  assume "active_ok s"
  with DeleteChat show ?thesis by (simp add: active_ok_deleteChat)
next
  case (SelectChat k)
  assume "active_ok s"
  with SelectChat show ?thesis by (auto simp: active_ok_def split: option.splits)
next
  case (SetInputText v)
  assume "active_ok s"
  with SetInputText show ?thesis by (auto simp: active_ok_def split: option.splits)
next
  case (FilesChosen files)
  assume "active_ok s"
  with FilesChosen show ?thesis
    by (auto simp: active_ok_def split: option.splits dest!: handleFileChange_store)
next
  case (RemoveAttachment k)
  assume "active_ok s"
  with RemoveAttachment show ?thesis by (auto simp: active_ok_def split: option.splits)
next
  case ClearAttachments
  assume "active_ok s"
  with ClearAttachments show ?thesis by (auto simp: active_ok_def split: option.splits)
next
  case (Send tc tm)
  assume "active_ok s"
  with Send show ?thesis by (simp add: active_ok_sendMessage)
next
  case (Settled k remote tm)
  assume "active_ok s"
  then have "active_ok (resumeSend (inflight s ! k) remote tm s)"
    by (rule active_ok_resumeSend)
  with Settled \<open>active_ok s\<close> show ?thesis by (auto simp: active_ok_def split: option.splits)
qed

lemma single_flight_sendMessage: "single_flight s \<Longrightarrow> single_flight (sendMessage tc tm s)"
  by (auto simp: single_flight_def sendMessage_def Let_def)

lemma resumeSend_flags:
  "\<not> isTyping (resumeSend p remote tm s) \<and> inflight (resumeSend p remote tm s) = inflight s"
  by (simp add: resumeSend_def split: sum.splits)

lemma single_flight_handle: "single_flight s \<Longrightarrow> single_flight (handle e s)"
proof (cases e)
  case (FilesChosen files)
  assume "single_flight s"
  with FilesChosen show ?thesis
    by (auto simp: single_flight_def split: option.splits dest!: handleFileChange_store)
next
  case (Send tc tm)
  assume "single_flight s"
  with Send show ?thesis by (simp add: single_flight_sendMessage)
next
  case (Settled k remote tm)
  assume "single_flight s"
  with Settled show ?thesis
    using resumeSend_flags [of "inflight s ! k" remote tm s]
    by (cases "inflight s") (auto simp: single_flight_def)
qed (auto simp: single_flight_def startNewChat_def deleteChat_def Let_def)

lemma invariant_step: "invariant s \<Longrightarrow> invariant (step e s)"
  by (simp add: invariant_def step_def rendered_renderApp active_ok_renderApp active_ok_handle
        single_flight_renderApp single_flight_handle)

lemma invariant_run: "invariant s \<Longrightarrow> invariant (run s evs)"
  by (induction evs arbitrary: s) (simp_all add: invariant_step)

lemma active_ok_App_init: "App_init saved = Inr s \<Longrightarrow> active_ok s"
  by (auto simp: App_init_def init_chats_def init_currentChatId_def active_ok_def
        split: option.splits sum.splits if_splits list.splits)

lemma single_flight_App_init: "App_init saved = Inr s \<Longrightarrow> single_flight s"
  by (auto simp: App_init_def single_flight_def split: sum.splits)

lemma invariant_App_mount:
  assumes "App_mount saved = Inr s0"
  shows "invariant s0"
proof -
  from assms obtain s where i: "App_init saved = Inr s" and r: "s0 = renderApp s"
    by (auto simp: App_mount_def split: sum.splits)
  from i have "active_ok s" and "single_flight s"
    by (rule active_ok_App_init, rule single_flight_App_init)
  with r show ?thesis
    by (simp add: invariant_def rendered_renderApp active_ok_renderApp single_flight_renderApp)
qed

lemma renderApp_id: "rendered s \<Longrightarrow> renderApp s = s"
  by (simp add: rendered_def renderApp_def Sidebar_sort_def sort_key_id_if_sorted)

lemma App_mount_None: "App_mount None = Inr empty_store"
  by (simp add: App_mount_def App_init_def init_chats_def init_currentChatId_def
        renderApp_def Sidebar_sort_def empty_store_def)

text \<open>
  Claim C1. Along every run of the mounted controller, whatever the events and their
  order (new chat, delete, select, typing, files, submissions, settlings), at most one
  call of the model is pending; while one is pending the typing flag is set; while
  the flag is set a call of \<open>sendMessage\<close>, whatever session is current, returns the
  state as it is (no user message appended, no call of the model added), also after
  the render that follows; and the flag is clear again once no call is pending.
\<close>

theorem single_flight_submit:
  assumes "App_mount saved = Inr s0"
  shows "length (inflight (run s0 evs)) \<le> 1
       \<and> (inflight (run s0 evs) \<noteq> [] \<longrightarrow> isTyping (run s0 evs))
       \<and> (isTyping (run s0 evs) \<longrightarrow>
            sendMessage tc tm (run s0 evs) = run s0 evs
            \<and> step (Send tc tm) (run s0 evs) = run s0 evs)
       \<and> (inflight (run s0 evs) = [] \<longrightarrow> \<not> isTyping (run s0 evs))"
proof -
  from assms have "invariant (run s0 evs)"
    by (intro invariant_run invariant_App_mount)
  then have sf: "single_flight (run s0 evs)" and r: "rendered (run s0 evs)"
    by (simp_all add: invariant_def)
  have busy: "sendMessage tc tm (run s0 evs) = run s0 evs" if "isTyping (run s0 evs)"
    using that by (simp add: sendMessage_def)
  from sf busy r show ?thesis
    by (auto simp: single_flight_def step_def renderApp_id)
qed

text \<open>
  The theorem after the text \<open>2+2\<close> was sent from the empty store and \<open>3+3\<close> was typed
  while the call is pending: a second submission changes nothing.
\<close>

theorem single_flight_submit_witness:
  "inflight (run empty_store
      [SetInputText ''2+2'',
       Send \<lparr> tc_id = 1000, tc_createdAt = 1000, tc_lastModified = 1000 \<rparr>
            \<lparr> tm_id = 1000, tm_timestamp = 1000, tm_lastModified = 1001 \<rparr>,
       SetInputText ''3+3''])
     = [\<lparr> p_activeChatId = toString 1000, p_chatHistory = [], p_originalInput = ''2+2'',
          p_originalAttachments = [] \<rparr>]
   \<and> isTyping (run empty_store
      [SetInputText ''2+2'',
       Send \<lparr> tc_id = 1000, tc_createdAt = 1000, tc_lastModified = 1000 \<rparr>
            \<lparr> tm_id = 1000, tm_timestamp = 1000, tm_lastModified = 1001 \<rparr>,
       SetInputText ''3+3''])
   \<and> sendMessage \<lparr> tc_id = 2000, tc_createdAt = 2000, tc_lastModified = 2000 \<rparr>
        \<lparr> tm_id = 2000, tm_timestamp = 2000, tm_lastModified = 2001 \<rparr>
        (run empty_store
          [SetInputText ''2+2'',
           Send \<lparr> tc_id = 1000, tc_createdAt = 1000, tc_lastModified = 1000 \<rparr>
                \<lparr> tm_id = 1000, tm_timestamp = 1000, tm_lastModified = 1001 \<rparr>,
           SetInputText ''3+3''])
     = run empty_store
          [SetInputText ''2+2'',
           Send \<lparr> tc_id = 1000, tc_createdAt = 1000, tc_lastModified = 1000 \<rparr>
                \<lparr> tm_id = 1000, tm_timestamp = 1000, tm_lastModified = 1001 \<rparr>,
           SetInputText ''3+3'']"
proof -
  let ?evs = "[SetInputText ''2+2'',
       Send \<lparr> tc_id = 1000, tc_createdAt = 1000, tc_lastModified = 1000 \<rparr>
            \<lparr> tm_id = 1000, tm_timestamp = 1000, tm_lastModified = 1001 \<rparr>,
       SetInputText ''3+3'']"
  have fl: "inflight (run empty_store ?evs)
     = [\<lparr> p_activeChatId = toString 1000, p_chatHistory = [], p_originalInput = ''2+2'',
          p_originalAttachments = [] \<rparr>]"
    by (simp add: empty_store_def step_def renderApp_def Sidebar_sort_def sendMessage_def
          trim_def trimStart_def trimEnd_def isWhiteSpace_def Let_def)
  show ?thesis
    using single_flight_submit [OF App_mount_None, of ?evs
        "\<lparr> tc_id = 2000, tc_createdAt = 2000, tc_lastModified = 2000 \<rparr>"
        "\<lparr> tm_id = 2000, tm_timestamp = 2000, tm_lastModified = 2001 \<rparr>"] fl
    by simp
qed

lemma sorted_head_latest:
  assumes "sorted (map (\<lambda>c. - lastModified c) (c # cs))" and "d \<in> set (c # cs)"
  shows "lastModified d \<le> lastModified (c :: ChatSession)"
  using assms by auto

text \<open>
  Claim C3. Take any state the mounted controller can be in, and any id \<open>i\<close>. If \<open>i\<close>
  is the current id, then after \<open>deleteChat i\<close> either no session remains and the
  current id is \<open>null\<close>, or the current id is that of a remaining session whose
  \<open>lastModified\<close> is the greatest among the remaining ones. If no session has the id
  \<open>i\<close>, \<open>deleteChat i\<close> leaves the state as it is.
\<close>

theorem deleteChat_selects_latest:
  assumes "App_mount saved = Inr s0"
  shows "(currentChatId (run s0 evs) = Some i \<longrightarrow>
           (case currentChatId (deleteChat i (run s0 evs)) of
              None \<Rightarrow> chats (deleteChat i (run s0 evs)) = []
            | Some j \<Rightarrow>
                \<exists>c\<in>set (chats (deleteChat i (run s0 evs))).
                   chat_id c = j \<and>
                   (\<forall>d\<in>set (chats (deleteChat i (run s0 evs))).
                      lastModified d \<le> lastModified c)))
       \<and> (i \<notin> set (map chat_id (chats (run s0 evs))) \<longrightarrow>
            deleteChat i (run s0 evs) = run s0 evs)"
proof -
  let ?s = "run s0 evs"
  let ?remaining = "filter (\<lambda>c. chat_id c \<noteq> i) (chats ?s)"
  from assms have "invariant ?s"
    by (intro invariant_run invariant_App_mount)
  then have ok: "active_ok ?s" and r: "rendered ?s"
    by (simp_all add: invariant_def)
  from r have srt: "sorted (map (\<lambda>c. - lastModified c) ?remaining)"
    unfolding rendered_def by (rule sorted_filter)
  have first: "case currentChatId (deleteChat i ?s) of
              None \<Rightarrow> chats (deleteChat i ?s) = []
            | Some j \<Rightarrow>
                \<exists>c\<in>set (chats (deleteChat i ?s)).
                   chat_id c = j \<and>
                   (\<forall>d\<in>set (chats (deleteChat i ?s)). lastModified d \<le> lastModified c)"
    if cur: "currentChatId ?s = Some i"
  proof (cases ?remaining)
    case Nil
    with cur show ?thesis by (simp add: deleteChat_def Let_def)
  next
    case (Cons c cs)
    with srt have "\<forall>d\<in>set (c # cs). lastModified d \<le> lastModified c"
      using sorted_head_latest [of c cs] by metis
    with Cons cur show ?thesis by (simp add: deleteChat_def Let_def)
  qed
  have second: "deleteChat i ?s = ?s" if absent: "i \<notin> set (map chat_id (chats ?s))"
  proof -
    from absent have f: "?remaining = chats ?s"
      by (auto simp: filter_id_conv)
    from absent ok have "currentChatId ?s \<noteq> Some i"
      by (auto simp: active_ok_def)
    with f show ?thesis by (simp add: deleteChat_def Let_def)
  qed
  from first second show ?thesis by blast
qed

text \<open>
  The theorem on a store of three sessions made at times 1000, 2000 and 3000, where
  a message was then sent in the oldest one at time 4000 and the session of time
  3000 was selected: deleting the current session \<open>3000\<close> makes \<open>1000\<close>, the session
  modified last, the current one; and deleting the unknown id \<open>9\<close> changes nothing.
\<close>

theorem deleteChat_selects_latest_witness:
  "currentChatId (run empty_store
      [NewChat \<lparr> tc_id = 1000, tc_createdAt = 1000, tc_lastModified = 1000 \<rparr>,
       NewChat \<lparr> tc_id = 2000, tc_createdAt = 2000, tc_lastModified = 2000 \<rparr>,
       NewChat \<lparr> tc_id = 3000, tc_createdAt = 3000, tc_lastModified = 3000 \<rparr>,
       SelectChat 2, SetInputText ''2+2'',
       Send \<lparr> tc_id = 4000, tc_createdAt = 4000, tc_lastModified = 4000 \<rparr>
            \<lparr> tm_id = 4000, tm_timestamp = 4000, tm_lastModified = 4000 \<rparr>,
       SelectChat 1]) = Some ''3000''
   \<and> currentChatId (deleteChat ''3000'' (run empty_store
      [NewChat \<lparr> tc_id = 1000, tc_createdAt = 1000, tc_lastModified = 1000 \<rparr>,
       NewChat \<lparr> tc_id = 2000, tc_createdAt = 2000, tc_lastModified = 2000 \<rparr>,
       NewChat \<lparr> tc_id = 3000, tc_createdAt = 3000, tc_lastModified = 3000 \<rparr>,
       SelectChat 2, SetInputText ''2+2'',
       Send \<lparr> tc_id = 4000, tc_createdAt = 4000, tc_lastModified = 4000 \<rparr>
            \<lparr> tm_id = 4000, tm_timestamp = 4000, tm_lastModified = 4000 \<rparr>,
       SelectChat 1])) = Some ''1000''
   \<and> map (\<lambda>c. (chat_id c, lastModified c)) (chats (deleteChat ''3000'' (run empty_store
      [NewChat \<lparr> tc_id = 1000, tc_createdAt = 1000, tc_lastModified = 1000 \<rparr>,
       NewChat \<lparr> tc_id = 2000, tc_createdAt = 2000, tc_lastModified = 2000 \<rparr>,
       NewChat \<lparr> tc_id = 3000, tc_createdAt = 3000, tc_lastModified = 3000 \<rparr>,
       SelectChat 2, SetInputText ''2+2'',
       Send \<lparr> tc_id = 4000, tc_createdAt = 4000, tc_lastModified = 4000 \<rparr>
            \<lparr> tm_id = 4000, tm_timestamp = 4000, tm_lastModified = 4000 \<rparr>,
       SelectChat 1]))) = [(''1000'', 4000), (''2000'', 2000)]
   \<and> deleteChat ''9'' (run empty_store
      [NewChat \<lparr> tc_id = 1000, tc_createdAt = 1000, tc_lastModified = 1000 \<rparr>,
       NewChat \<lparr> tc_id = 2000, tc_createdAt = 2000, tc_lastModified = 2000 \<rparr>,
       NewChat \<lparr> tc_id = 3000, tc_createdAt = 3000, tc_lastModified = 3000 \<rparr>,
       SelectChat 2, SetInputText ''2+2'',
       Send \<lparr> tc_id = 4000, tc_createdAt = 4000, tc_lastModified = 4000 \<rparr>
            \<lparr> tm_id = 4000, tm_timestamp = 4000, tm_lastModified = 4000 \<rparr>,
       SelectChat 1])
     = run empty_store
      [NewChat \<lparr> tc_id = 1000, tc_createdAt = 1000, tc_lastModified = 1000 \<rparr>,
       NewChat \<lparr> tc_id = 2000, tc_createdAt = 2000, tc_lastModified = 2000 \<rparr>,
       NewChat \<lparr> tc_id = 3000, tc_createdAt = 3000, tc_lastModified = 3000 \<rparr>,
       SelectChat 2, SetInputText ''2+2'',
       Send \<lparr> tc_id = 4000, tc_createdAt = 4000, tc_lastModified = 4000 \<rparr>
            \<lparr> tm_id = 4000, tm_timestamp = 4000, tm_lastModified = 4000 \<rparr>,
       SelectChat 1]"
proof -
  let ?evs = "[NewChat \<lparr> tc_id = 1000, tc_createdAt = 1000, tc_lastModified = 1000 \<rparr>,
       NewChat \<lparr> tc_id = 2000, tc_createdAt = 2000, tc_lastModified = 2000 \<rparr>,
       NewChat \<lparr> tc_id = 3000, tc_createdAt = 3000, tc_lastModified = 3000 \<rparr>,
       SelectChat 2, SetInputText ''2+2'',
       Send \<lparr> tc_id = 4000, tc_createdAt = 4000, tc_lastModified = 4000 \<rparr>
            \<lparr> tm_id = 4000, tm_timestamp = 4000, tm_lastModified = 4000 \<rparr>,
       SelectChat 1]"
  have ts: "toString 1000 = ''1000''" "toString 2000 = ''2000''" "toString 3000 = ''3000''"
    "toString 4000 = ''4000''"
    by (simp_all add: toString_def digits.simps)
  have cur: "currentChatId (run empty_store ?evs) = Some ''3000''"
    and cs: "map (\<lambda>c. (chat_id c, lastModified c)) (chats (run empty_store ?evs))
              = [(''1000'', 4000), (''3000'', 3000), (''2000'', 2000)]"
    by (simp_all add: empty_store_def step_def renderApp_def Sidebar_sort_def sendMessage_def
          startNewChat_def trim_def trimStart_def trimEnd_def isWhiteSpace_def Let_def
          noActiveChat_def appendMessage_def ts)
  have absent: "''9'' \<notin> set (map chat_id (chats (run empty_store ?evs)))"
    using arg_cong [OF cs, of "map fst"] by (simp add: comp_def)
  have del: "currentChatId (deleteChat ''3000'' (run empty_store ?evs)) = Some ''1000''"
    and rem: "map (\<lambda>c. (chat_id c, lastModified c)) (chats (deleteChat ''3000'' (run empty_store ?evs)))
              = [(''1000'', 4000), (''2000'', 2000)]"
    by (simp_all add: empty_store_def step_def renderApp_def Sidebar_sort_def sendMessage_def
          startNewChat_def trim_def trimStart_def trimEnd_def isWhiteSpace_def Let_def
          noActiveChat_def appendMessage_def deleteChat_def ts)
  from deleteChat_selects_latest [OF App_mount_None, of ?evs "''9''"] absent
  have "deleteChat ''9'' (run empty_store ?evs) = run empty_store ?evs"
    by blast
  with cur del rem show ?thesis by simp
qed

lemma active_ok_run: "active_ok s \<Longrightarrow> active_ok (run s evs)"
  by (induction evs arbitrary: s) (simp_all add: step_def active_ok_renderApp active_ok_handle)

text \<open>
  Claim C4. After any finite sequence of \<open>startNewChat\<close> and \<open>deleteChat\<close> operations
  from the empty store, the current id is \<open>null\<close> or the id of a session of the store.
\<close>

theorem active_session_never_dangling:
  assumes "\<forall>e\<in>set evs. isCreateOrDelete e"
  shows "active_ok (run empty_store evs)"
proof -
  have "active_ok empty_store"
    by (simp add: active_ok_def empty_store_def)
  then show ?thesis by (rule active_ok_run)
qed

text \<open>
  The theorem after two sessions were created and the later one, which is current,
  was deleted: the remaining session is the current one.
\<close>

theorem active_session_never_dangling_witness:
  "active_ok (run empty_store
      [NewChat \<lparr> tc_id = 1000, tc_createdAt = 1000, tc_lastModified = 1000 \<rparr>,
       NewChat \<lparr> tc_id = 2000, tc_createdAt = 2000, tc_lastModified = 2000 \<rparr>,
       DeleteChat ''2000''])
   \<and> currentChatId (run empty_store
      [NewChat \<lparr> tc_id = 1000, tc_createdAt = 1000, tc_lastModified = 1000 \<rparr>,
       NewChat \<lparr> tc_id = 2000, tc_createdAt = 2000, tc_lastModified = 2000 \<rparr>,
       DeleteChat ''2000'']) = Some ''1000''
   \<and> map chat_id (chats (run empty_store
      [NewChat \<lparr> tc_id = 1000, tc_createdAt = 1000, tc_lastModified = 1000 \<rparr>,
       NewChat \<lparr> tc_id = 2000, tc_createdAt = 2000, tc_lastModified = 2000 \<rparr>,
       DeleteChat ''2000''])) = [''1000'']"
proof -
  let ?evs = "[NewChat \<lparr> tc_id = 1000, tc_createdAt = 1000, tc_lastModified = 1000 \<rparr>,
       NewChat \<lparr> tc_id = 2000, tc_createdAt = 2000, tc_lastModified = 2000 \<rparr>,
       DeleteChat ''2000'']"
  have h: "\<forall>e\<in>set ?evs. isCreateOrDelete e"
    by simp
  have ts: "toString 1000 = ''1000''" "toString 2000 = ''2000''"
    by (simp_all add: toString_def digits.simps)
  have "currentChatId (run empty_store ?evs) = Some ''1000''"
    and "map chat_id (chats (run empty_store ?evs)) = [''1000'']"
    by (simp_all add: empty_store_def step_def renderApp_def Sidebar_sort_def startNewChat_def
          deleteChat_def Let_def ts)
  with active_session_never_dangling [OF h] show ?thesis by simp
qed

section \<open>Theorems: the renderer\<close>

lemma renderMath_returns: "\<exists>html. renderMath k t b = Inr html"
  by (simp add: renderMath_def split: sum.splits)

lemma blockReplacer_returns: "\<exists>html. blockReplacer k t = Inr html"
  using renderMath_returns [of k t True]
  by (auto simp: blockReplacer_def)

lemma replaceBlock_returns:
  "\<forall>m. \<exists>r. f m = Inr r \<Longrightarrow> \<exists>t. replaceBlock f s = Inr t"
proof (induction f s rule: replaceBlock.induct)
  case (1 f)
  show ?case by simp
next
  case (2 f c cs)
  show ?case
  proof (cases "matchBlock (c # cs)")
    case None
    from "2.IH"(1) [OF None "2.prems"] obtain t where "replaceBlock f cs = Inr t" by blast
    with None show ?thesis by simp
  next
    case (Some a)
    obtain m rest where a: "a = (m, rest)" by (cases a)
    from "2.prems" obtain r where r: "f m = Inr r" by blast
    from "2.IH"(2) [OF Some a [symmetric] r "2.prems"] obtain t where "replaceBlock f rest = Inr t"
      by blast
    with Some a r show ?thesis by simp
  qed
qed

lemma replaceInline_returns:
  "\<forall>m. \<exists>r. f m = Inr r \<Longrightarrow> \<exists>t. replaceInline f s = Inr t"
proof (induction f s rule: replaceInline.induct)
  case (1 f)
  show ?case by simp
next
  case (2 f c cs)
  show ?case
  proof (cases "matchInline (c # cs)")
    case None
    from "2.IH"(1) [OF None "2.prems"] obtain t where "replaceInline f cs = Inr t" by blast
    with None show ?thesis by simp
  next
    case (Some a)
    obtain m rest where a: "a = (m, rest)" by (cases a)
    from "2.prems" obtain r where r: "f m = Inr r" by blast
    from "2.IH"(2) [OF Some a [symmetric] r "2.prems"] obtain t where "replaceInline f rest = Inr t"
      by blast
    with Some a r show ?thesis by simp
  qed
qed

lemma MathMarkdown_returns: "\<exists>r. MathMarkdown window_katex content = Inr r"
proof (cases window_katex)
  case None
  then show ?thesis by (simp add: MathMarkdown_def)
next
  case (Some k)
  obtain p1 where p1: "replaceBlock (blockReplacer k) content = Inr p1"
    using replaceBlock_returns [of "blockReplacer k" content] blockReplacer_returns by blast
  obtain p2 where p2: "replaceInline (\<lambda>math. renderMath k math False) p1 = Inr p2"
    using replaceInline_returns [of "\<lambda>math. renderMath k math False" p1] renderMath_returns
    by blast
  from Some p1 p2 show ?thesis by (simp add: MathMarkdown_def)
qed

lemma renderMath_recover:
  "renderMath (\<lambda>t b. case k t b of Inl e \<Rightarrow> Inr t | Inr h \<Rightarrow> Inr h) t b = renderMath k t b"
  by (simp add: renderMath_def split: sum.splits)

text \<open>
  Claim C5. For every content (the empty string and strings with an unmatched \<open>$\<close> or
  \<open>$$\<close> among them), with or without a typesetting backend, and whatever the
  backend returns or throws, \<open>MathMarkdown\<close> returns a result: it does not throw. A
  formula on which the backend throws is rendered as its own source text; and the
  whole result is the one obtained from a backend that returns the source text of
  such a formula instead of throwing, so that the rest of the content is rendered
  as it would have been.
\<close>

theorem MathMarkdown_never_throws:
  "(\<exists>r. MathMarkdown window_katex content = Inr r)
   \<and> (k t b = Inl e \<longrightarrow> renderMath k t b = Inr t)
   \<and> MathMarkdown (Some k) content
       = MathMarkdown (Some (\<lambda>t b. case k t b of Inl e \<Rightarrow> Inr t | Inr h \<Rightarrow> Inr h)) content"
proof -
  have returns: "\<exists>r. MathMarkdown window_katex content = Inr r"
    by (rule MathMarkdown_returns)
  have fragment: "k t b = Inl e \<longrightarrow> renderMath k t b = Inr t"
    by (simp add: renderMath_def)
  have br: "blockReplacer (\<lambda>t b. case k t b of Inl e \<Rightarrow> Inr t | Inr h \<Rightarrow> Inr h) = blockReplacer k"
    by (intro ext) (simp add: blockReplacer_def renderMath_recover)
  have rm: "(\<lambda>math. renderMath (\<lambda>t b. case k t b of Inl e \<Rightarrow> Inr t | Inr h \<Rightarrow> Inr h) math False)
      = (\<lambda>math. renderMath k math False)"
    by (simp add: renderMath_recover)
  have rest: "MathMarkdown (Some k) content
       = MathMarkdown (Some (\<lambda>t b. case k t b of Inl e \<Rightarrow> Inr t | Inr h \<Rightarrow> Inr h)) content"
    by (simp only: MathMarkdown_def option.case br rm)
  from returns fragment rest show ?thesis by blast
qed

text \<open>
  The theorem with a backend that throws on every formula, on a content that holds
  an inline formula, a block formula and an unmatched \<open>$\<close>: one paragraph, with the
  two formulas as their source text; and on the empty string and on a lone \<open>$$\<close>.
\<close>

theorem MathMarkdown_never_throws_witness:
  "MathMarkdown (Some (\<lambda>t b. Inl TypeError)) ''a $x$ $$ y $$ $''
     = Inr (Elements [P ''a x <div class=\"katex-display-container\">y</div> $''])
   \<and> renderMath (\<lambda>t b. Inl TypeError) ''x'' False = Inr ''x''
   \<and> MathMarkdown (Some (\<lambda>t b. Inl TypeError)) [] = Inr Null
   \<and> MathMarkdown (Some (\<lambda>t b. Inl TypeError)) ''$$'' = Inr (Elements [P ''$$''])"
proof -
  have e: "MathMarkdown (Some (\<lambda>t b. Inr t)) ''a $x$ $$ y $$ $''
     = Inr (Elements [P ''a x <div class=\"katex-display-container\">y</div> $''])"
    by (simp add: MathMarkdown_def blockReplacer_def renderMath_def matchBlock_def
          matchInline_def matchBold_def isWhiteSpace_def trimEnd_def trimStart_def trim_def
          displayOpen_def displayClose_def renderLine_def isOrderedItem_def isDigit_def Let_def)
  have d: "MathMarkdown (Some (\<lambda>t b. Inr t)) ''$$'' = Inr (Elements [P ''$$''])"
    by (simp add: MathMarkdown_def blockReplacer_def renderMath_def matchBlock_def
          matchInline_def matchBold_def isWhiteSpace_def trimEnd_def trimStart_def trim_def
          displayOpen_def displayClose_def renderLine_def isOrderedItem_def isDigit_def Let_def)
  have n: "MathMarkdown (Some (\<lambda>t b. Inl TypeError)) [] = Inr Null"
    by (simp add: MathMarkdown_def)
  show ?thesis
    using MathMarkdown_never_throws [of None "''a $x$ $$ y $$ $''" "\<lambda>t b. Inl TypeError"
        "''x''" False TypeError]
      MathMarkdown_never_throws [of None "''$$''" "\<lambda>t b. Inl TypeError" "''x''" False
        TypeError] e d n
    by simp
qed

lemma replaceInline_plain: "CHR ''$'' \<notin> set s \<Longrightarrow> replaceInline f s = Inr s"
  by (induction s) (auto simp: matchInline_def Let_def)

lemma replaceBold_plain: "CHR ''*'' \<notin> set s \<Longrightarrow> replaceBold s = s"
proof (induction s)
  case Nil
  show ?case by simp
next
  case (Cons c cs)
  then have "matchBold (c # cs) = None"
    by (auto simp: matchBold_def)
  with Cons show ?case by simp
qed

lemma splitLines_plain: "CHR 0x0A \<notin> set s \<Longrightarrow> splitLines s = [s]"
  by (induction s) auto

lemma trim_display: "trim (displayOpen @ h @ displayClose) = displayOpen @ h @ displayClose"
  by (simp add: trim_def trimStart_def trimEnd_def displayOpen_def displayClose_def
        isWhiteSpace_def)

lemma renderLine_display:
  assumes "CHR ''*'' \<notin> set h"
  shows "renderLine (displayOpen @ h @ displayClose) = P (displayOpen @ h @ displayClose)"
proof -
  have "CHR ''*'' \<notin> set (displayOpen @ h @ displayClose)"
    using assms by (simp add: displayOpen_def displayClose_def)
  then have b: "replaceBold (displayOpen @ h @ displayClose) = displayOpen @ h @ displayClose"
    by (rule replaceBold_plain)
  have t: "take 2 (displayOpen @ h @ displayClose) = ''<d''"
    by (simp add: displayOpen_def)
  have o: "\<not> isOrderedItem (displayOpen @ h @ displayClose)"
    by (simp add: isOrderedItem_def displayOpen_def isDigit_def)
  have n: "displayOpen @ h @ displayClose \<noteq> []"
    by (simp add: displayOpen_def)
  show ?thesis
    unfolding renderLine_def Let_def trim_display b using t o n by simp
qed

lemma matchBlock_integralQuery: "matchBlock integralQuery = Some (integralTeX, [])"
  by (simp add: matchBlock_def integralQuery_def integralTeX_def isWhiteSpace_def trimEnd_def)

text \<open>
  Claim C6, as the code has it. With a typesetting backend, whatever it returns for
  the formula (its source text when it throws), provided that markup has no line
  feed, no \<open>$\<close> and no \<open>*\<close>: the content \<open>$$\int_0^\infty \frac{\sin x}{x}dx$$\<close> is
  rendered as exactly one element, a paragraph, whose markup is the display-math
  container around the typeset formula.
\<close>

theorem MathMarkdown_block_scenario:
  assumes "renderMath k integralTeX True = Inr h"
    and "CHR 0x0A \<notin> set h" and "CHR ''$'' \<notin> set h" and "CHR ''*'' \<notin> set h"
  shows "MathMarkdown (Some k) integralQuery
           = Inr (Elements [P (displayOpen @ h @ displayClose)])"
proof -
  have q: "integralQuery \<noteq> []"
    by (simp add: integralQuery_def)
  then obtain c cs where ccs: "integralQuery = c # cs"
    by (cases integralQuery) auto
  have "replaceBlock (blockReplacer k) integralQuery = Inr (displayOpen @ h @ displayClose)"
    unfolding ccs using matchBlock_integralQuery assms(1)
    by (simp add: ccs blockReplacer_def)
  moreover have "CHR ''$'' \<notin> set (displayOpen @ h @ displayClose)"
    using assms(3) by (simp add: displayOpen_def displayClose_def)
  then have "replaceInline (\<lambda>math. renderMath k math False) (displayOpen @ h @ displayClose)
               = Inr (displayOpen @ h @ displayClose)"
    by (rule replaceInline_plain)
  moreover have "CHR 0x0A \<notin> set (displayOpen @ h @ displayClose)"
    using assms(2) by (simp add: displayOpen_def displayClose_def)
  then have "splitLines (displayOpen @ h @ displayClose) = [displayOpen @ h @ displayClose]"
    by (rule splitLines_plain)
  ultimately show ?thesis
    using q renderLine_display [OF assms(4)] by (simp add: MathMarkdown_def)
qed

text \<open>
  The theorem with a backend that wraps the source of a formula in a \<open>span\<close>.
\<close>

theorem MathMarkdown_block_scenario_witness:
  "MathMarkdown (Some (\<lambda>t b. Inr (''<span class=\"katex\">'' @ t @ ''</span>''))) integralQuery
     = Inr (Elements
         [P (displayOpen @ (''<span class=\"katex\">'' @ integralTeX @ ''</span>'') @ displayClose)])"
proof -
  let ?k = "\<lambda>t (b::bool). (Inr (''<span class=\"katex\">'' @ t @ ''</span>'') :: js_error + string)"
  let ?h = "''<span class=\"katex\">'' @ integralTeX @ ''</span>''"
  have r: "renderMath ?k integralTeX True = Inr ?h"
    by (simp add: renderMath_def)
  have "CHR 0x0A \<notin> set ?h" and "CHR ''$'' \<notin> set ?h" and "CHR ''*'' \<notin> set ?h"
    by (simp_all add: integralTeX_def)
  then show ?thesis
    by (rule MathMarkdown_block_scenario [OF r])
qed

text \<open>
  Claim C6 as stated asks for one display-math block and no paragraph block. With
  that backend the result is one element and it is a paragraph: the display-math
  container is markup inside the paragraph, not a block of its own.
\<close>

theorem MathMarkdown_block_counterexample:
  "MathMarkdown (Some (\<lambda>t b. Inr (''<span class=\"katex\">'' @ t @ ''</span>''))) integralQuery
     = Inr (Elements
         [P (''<div class=\"katex-display-container\"><span class=\"katex\">'' @ integralTeX
              @ ''</span></div>'')])
   \<and> list_all isParagraph
        [P (''<div class=\"katex-display-container\"><span class=\"katex\">'' @ integralTeX
              @ ''</span></div>'')]"
  by (simp add: MathMarkdown_def integralQuery_def integralTeX_def blockReplacer_def
        renderMath_def matchBlock_def matchInline_def matchBold_def isWhiteSpace_def
        trimEnd_def trimStart_def trim_def displayOpen_def displayClose_def renderLine_def
        isOrderedItem_def isDigit_def Let_def)

end
